theory Spec2Isabelle
  imports Complex_Main
begin

section \<open>JavaScript values\<close>

text \<open>
  The handlers of \<^verbatim>\<open>server.js\<close> receive the body that \<^verbatim>\<open>express.json()\<close> parsed and
  read and write two JSON documents. They are dynamically typed: a field of a request may
  be missing or hold any JSON value, and the code decides with truthiness, \<^verbatim>\<open>typeof\<close>,
  \<^verbatim>\<open>===\<close> and the coercing operators \<^verbatim>\<open><\<close>, \<^verbatim>\<open><=\<close>, \<^verbatim>\<open>*\<close> and \<^verbatim>\<open>-=\<close>. The model keeps
  that: a request field is a \<open>jsval\<close>.

  A JavaScript number is an IEEE-754 double. Here a finite number is an exact rational;
  \<open>NaN\<close> and the two infinities are values of their own, and \<open>-0\<close> is identified with
  \<open>0\<close> (no operation of the handlers tells them apart). Rounding error and overflow of
  doubles are therefore outside the model.
\<close>

datatype jsnum = Fin rat | NaN | PInf | NInf

datatype jsval =
    Undefined
  | Null
  | Bool bool
  | Num jsnum
  | Str string
  | Arr "jsval list"
  | Obj "(string \<times> jsval) list"

subsection \<open>Arithmetic and comparison of numbers\<close>

fun num_neg :: "jsnum \<Rightarrow> jsnum" where
  "num_neg (Fin r) = Fin (- r)"
| "num_neg NaN = NaN"
| "num_neg PInf = NInf"
| "num_neg NInf = PInf"

fun num_add :: "jsnum \<Rightarrow> jsnum \<Rightarrow> jsnum" where
  "num_add (Fin a) (Fin b) = Fin (a + b)"
| "num_add NaN _ = NaN"
| "num_add _ NaN = NaN"
| "num_add PInf NInf = NaN"
| "num_add NInf PInf = NaN"
| "num_add PInf _ = PInf"
| "num_add _ PInf = PInf"
| "num_add NInf _ = NInf"
| "num_add _ NInf = NInf"

definition num_sub :: "jsnum \<Rightarrow> jsnum \<Rightarrow> jsnum" where
  "num_sub a b = num_add a (num_neg b)"

fun num_sign :: "jsnum \<Rightarrow> int" where
  "num_sign (Fin r) = (if r < 0 then - 1 else if r = 0 then 0 else 1)"
| "num_sign NaN = 0"
| "num_sign PInf = 1"
| "num_sign NInf = - 1"

fun num_mul :: "jsnum \<Rightarrow> jsnum \<Rightarrow> jsnum" where
  "num_mul (Fin a) (Fin b) = Fin (a * b)"
| "num_mul NaN _ = NaN"
| "num_mul _ NaN = NaN"
| "num_mul a b =
     (let s = num_sign a * num_sign b
      in if s = 0 then NaN else if 0 < s then PInf else NInf)"

fun num_lt :: "jsnum \<Rightarrow> jsnum \<Rightarrow> bool" where
  "num_lt (Fin a) (Fin b) = (a < b)"
| "num_lt NaN _ = False"
| "num_lt _ NaN = False"
| "num_lt NInf b = (b \<noteq> NInf)"
| "num_lt a PInf = (a \<noteq> PInf)"
| "num_lt _ _ = False"

text \<open>
  \<^verbatim>\<open>parseFloat(x.toFixed(2))\<close>: \<^verbatim>\<open>toFixed(2)\<close> prints the multiple of \<open>1/100\<close> nearest to
  \<open>|x|\<close>, the larger one at a tie, with the sign of \<open>x\<close>; from \<open>10^21\<close> on it prints
  the number as \<^verbatim>\<open>String(x)\<close> does; \<^verbatim>\<open>parseFloat\<close> reads the value back.
\<close>

fun toFixed2 :: "jsnum \<Rightarrow> jsnum" where
  "toFixed2 (Fin r) =
     (if 10 ^ 21 \<le> \<bar>r\<bar> then Fin r
      else Fin ((if r < 0 then - 1 else 1) * of_int \<lfloor>\<bar>r\<bar> * 100 + 1 / 2\<rfloor> / 100))"
| "toFixed2 NaN = NaN"
| "toFixed2 PInf = PInf"
| "toFixed2 NInf = NInf"

subsection \<open>Strings and numbers\<close>

text \<open>
  White space is the ASCII white space: space, tab, line feed, vertical tab, form feed and
  carriage return. The other white space characters of Unicode are not in the model.
\<close>

definition is_space :: "char \<Rightarrow> bool" where
  "is_space c = (c \<in> set [CHR '' '', CHR 0x09, CHR 0x0A, CHR 0x0B, CHR 0x0C, CHR 0x0D])"

definition trimStart :: "string \<Rightarrow> string" where
  "trimStart s = dropWhile is_space s"

definition trim :: "string \<Rightarrow> string" where
  "trim s = rev (dropWhile is_space (rev (dropWhile is_space s)))"

definition is_digit :: "char \<Rightarrow> bool" where
  "is_digit c = (48 \<le> (of_char c :: nat) \<and> (of_char c :: nat) \<le> 57)"

definition digits_value :: "string \<Rightarrow> nat" where
  "digits_value ds = foldl (\<lambda>a c. 10 * a + (of_char c - 48)) 0 ds"

fun nat_digits :: "nat \<Rightarrow> string" where
  "nat_digits n =
     (if n < 10 then [char_of (48 + n)]
      else nat_digits (n div 10) @ [char_of (48 + n mod 10)])"

text \<open>
  \<^verbatim>\<open>parseInt(s, 10)\<close> on a string: leading white space is skipped, one sign is read, then
  the longest run of decimal digits; no digit gives \<open>NaN\<close>.
\<close>

definition parseInt_s :: "string \<Rightarrow> jsnum" where
  "parseInt_s str =
     (let s = trimStart str;
          sign = (if s \<noteq> [] \<and> hd s = CHR ''-'' then - 1 else 1 :: int);
          s' = (if s \<noteq> [] \<and> (hd s = CHR ''+'' \<or> hd s = CHR ''-'') then tl s else s);
          z = takeWhile is_digit s'
      in if z = [] then NaN else Fin (of_int (sign * int (digits_value z))))"

text \<open>
  The longest prefix of a string that is a \<^verbatim>\<open>StrDecimalLiteral\<close> of ECMAScript
  (\<^verbatim>\<open>Infinity\<close>, or digits with an optional fraction and an optional exponent, after an
  optional sign), with its value and the rest of the string.
\<close>

definition scan_exponent :: "string \<Rightarrow> int \<times> string" where
  "scan_exponent s =
     (case s of
        [] \<Rightarrow> (0, s)
      | c # t \<Rightarrow>
          if c = CHR ''e'' \<or> c = CHR ''E'' then
            (let sg = (if t \<noteq> [] \<and> hd t = CHR ''-'' then - 1 else 1 :: int);
                 u = (if t \<noteq> [] \<and> (hd t = CHR ''+'' \<or> hd t = CHR ''-'') then tl t else t);
                 ds = takeWhile is_digit u
             in if ds = [] then (0, s) else (sg * int (digits_value ds), dropWhile is_digit u))
          else (0, s))"

definition scan_unsigned :: "string \<Rightarrow> (jsnum \<times> string) option" where
  "scan_unsigned s =
     (if take 8 s = ''Infinity'' then Some (PInf, drop 8 s)
      else
        let ip = takeWhile is_digit s;
            r1 = dropWhile is_digit s;
            dot = (r1 \<noteq> [] \<and> hd r1 = CHR ''.'');
            fp = (if dot then takeWhile is_digit (tl r1) else []);
            r2 = (if dot then dropWhile is_digit (tl r1) else r1)
        in if ip = [] \<and> fp = [] then None
           else
             let (e, r3) = scan_exponent r2;
                 m = of_nat (digits_value (ip @ fp)) :: rat;
                 x = e - int (length fp)
             in Some (Fin (if 0 \<le> x then m * 10 ^ nat x else m / 10 ^ nat (- x)), r3))"

definition scan_decimal :: "string \<Rightarrow> (jsnum \<times> string) option" where
  "scan_decimal s =
     (if s \<noteq> [] \<and> hd s = CHR ''-''
      then map_option (\<lambda>(v, r). (num_neg v, r)) (scan_unsigned (tl s))
      else if s \<noteq> [] \<and> hd s = CHR ''+'' then scan_unsigned (tl s)
      else scan_unsigned s)"

definition parseFloat_s :: "string \<Rightarrow> jsnum" where
  "parseFloat_s str =
     (case scan_decimal (trimStart str) of None \<Rightarrow> NaN | Some (v, _) \<Rightarrow> v)"

text \<open>
  \<^verbatim>\<open>StringToNumber\<close>, the conversion the operators apply to a string: the whole
  trimmed string must be a numeric literal (decimal as above, or \<^verbatim>\<open>0x\<close>, \<^verbatim>\<open>0o\<close>, \<^verbatim>\<open>0b\<close>
  followed by digits of that radix); the empty string is \<open>0\<close>.
\<close>

definition hex_val :: "char \<Rightarrow> nat option" where
  "hex_val c =
     (let n = of_char c :: nat
      in if 48 \<le> n \<and> n \<le> 57 then Some (n - 48)
         else if 97 \<le> n \<and> n \<le> 102 then Some (n - 87)
         else if 65 \<le> n \<and> n \<le> 70 then Some (n - 55)
         else None)"

fun radix_value :: "nat \<Rightarrow> nat \<Rightarrow> string \<Rightarrow> nat option" where
  "radix_value b acc [] = Some acc"
| "radix_value b acc (c # cs) =
     (case hex_val c of
        None \<Rightarrow> None
      | Some d \<Rightarrow> if d < b then radix_value b (acc * b + d) cs else None)"

definition non_decimal_literal :: "string \<Rightarrow> jsnum option" where
  "non_decimal_literal s =
     (case s of
        z # x # ds \<Rightarrow>
          if z = CHR ''0'' \<and> ds \<noteq> [] then
            (let b = (if x = CHR ''x'' \<or> x = CHR ''X'' then 16
                      else if x = CHR ''o'' \<or> x = CHR ''O'' then 8
                      else if x = CHR ''b'' \<or> x = CHR ''B'' then 2 else 0 :: nat)
             in if b = 0 then None
                else map_option (\<lambda>n. Fin (of_nat n)) (radix_value b 0 ds))
          else None
      | _ \<Rightarrow> None)"

definition StringToNumber :: "string \<Rightarrow> jsnum" where
  "StringToNumber str =
     (let t = trim str
      in if t = [] then Fin 0
         else case non_decimal_literal t of
                Some v \<Rightarrow> v
              | None \<Rightarrow> (case scan_decimal t of Some (v, []) \<Rightarrow> v | _ \<Rightarrow> NaN))"

text \<open>
  \<^verbatim>\<open>Number::toString\<close>: with \<open>s\<close> the digits of the number without trailing zeros,
  \<open>k\<close> their count and \<open>10 ^ (n - 1) \<le> r < 10 ^ n\<close>, plain decimal notation for
  \<open>-5 \<le> n \<le> 21\<close> and exponent notation otherwise. The digits are those of the exact
  decimal expansion; every number a JSON text can carry, and every sum, difference and
  product of such numbers, has one (\<open>frac_len\<close> stops at the denominator for the others).
\<close>

fun frac_len :: "nat \<Rightarrow> rat \<Rightarrow> nat" where
  "frac_len 0 r = 0"
| "frac_len (Suc f) r = (if r = of_int \<lfloor>r\<rfloor> then 0 else Suc (frac_len f (r * 10)))"

definition NumberToString_pos :: "rat \<Rightarrow> string" where
  "NumberToString_pos r =
     (let j = frac_len (nat (snd (quotient_of r))) r;
          digits = nat_digits (nat \<lfloor>r * 10 ^ j\<rfloor>);
          s = rev (dropWhile (\<lambda>c. c = CHR ''0'') (rev digits));
          k = int (length s);
          n = int (length digits) - int j
      in if - 5 \<le> n \<and> n \<le> 21 then
           (if k \<le> n then s @ replicate (nat (n - k)) (CHR ''0'')
            else if 0 < n then take (nat n) s @ ''.'' @ drop (nat n) s
            else ''0.'' @ replicate (nat (- n)) (CHR ''0'') @ s)
         else
           (let e = n - 1;
                es = (if 0 \<le> e then ''+'' else ''-'') @ nat_digits (nat \<bar>e\<bar>)
            in if k = 1 then s @ ''e'' @ es
               else take 1 s @ ''.'' @ drop 1 s @ ''e'' @ es))"

fun NumberToString :: "jsnum \<Rightarrow> string" where
  "NumberToString NaN = ''NaN''"
| "NumberToString PInf = ''Infinity''"
| "NumberToString NInf = ''-Infinity''"
| "NumberToString (Fin r) =
     (if r = 0 then ''0''
      else if r < 0 then ''-'' @ NumberToString_pos (- r)
      else NumberToString_pos r)"

subsection \<open>Conversions and operators on values\<close>

fun join_comma :: "string list \<Rightarrow> string" where
  "join_comma [] = []"
| "join_comma [x] = x"
| "join_comma (x # y # r) = x @ '','' @ join_comma (y # r)"

fun ToString :: "jsval \<Rightarrow> string" where
  "ToString Undefined = ''undefined''"
| "ToString Null = ''null''"
| "ToString (Bool b) = (if b then ''true'' else ''false'')"
| "ToString (Num n) = NumberToString n"
| "ToString (Str s) = s"
| "ToString (Arr xs) =
     join_comma (map (\<lambda>x. if x = Undefined \<or> x = Null then [] else ToString x) xs)"
| "ToString (Obj kvs) = ''[object Object]''"

fun ToPrimitive :: "jsval \<Rightarrow> jsval" where
  "ToPrimitive (Arr xs) = Str (ToString (Arr xs))"
| "ToPrimitive (Obj kvs) = Str (ToString (Obj kvs))"
| "ToPrimitive v = v"

fun ToNumber :: "jsval \<Rightarrow> jsnum" where
  "ToNumber Undefined = NaN"
| "ToNumber Null = Fin 0"
| "ToNumber (Bool b) = Fin (if b then 1 else 0)"
| "ToNumber (Num n) = n"
| "ToNumber (Str s) = StringToNumber s"
| "ToNumber (Arr xs) = StringToNumber (ToString (Arr xs))"
| "ToNumber (Obj kvs) = StringToNumber (ToString (Obj kvs))"

text \<open>\<^verbatim>\<open>!v\<close> is \<open>\<not> truthy v\<close>; \<^verbatim>\<open>Boolean(v)\<close> is \<open>truthy v\<close>.\<close>

fun truthy :: "jsval \<Rightarrow> bool" where
  "truthy Undefined = False"
| "truthy Null = False"
| "truthy (Bool b) = b"
| "truthy (Num n) = (n \<noteq> Fin 0 \<and> n \<noteq> NaN)"
| "truthy (Str s) = (s \<noteq> [])"
| "truthy (Arr xs) = True"
| "truthy (Obj kvs) = True"

text \<open>
  \<^verbatim>\<open>a === b\<close>. Two objects are equal only when they are the same object; the objects
  compared here come from different places (a parsed body, a parsed document), so they
  never are.
\<close>

fun strict_eq :: "jsval \<Rightarrow> jsval \<Rightarrow> bool" where
  "strict_eq Undefined Undefined = True"
| "strict_eq Null Null = True"
| "strict_eq (Bool a) (Bool b) = (a = b)"
| "strict_eq (Num a) (Num b) = (a = b \<and> a \<noteq> NaN)"
| "strict_eq (Str a) (Str b) = (a = b)"
| "strict_eq _ _ = False"

fun str_lt :: "string \<Rightarrow> string \<Rightarrow> bool" where
  "str_lt [] [] = False"
| "str_lt [] (b # t) = True"
| "str_lt (a # s) [] = False"
| "str_lt (a # s) (b # t) =
     ((of_char a :: nat) < of_char b \<or> (a = b \<and> str_lt s t))"

text \<open>
  \<^verbatim>\<open>a < b\<close> and \<^verbatim>\<open>a <= b\<close>: both operands are made primitive; two strings are compared
  as strings, anything else as numbers, and a comparison with \<open>NaN\<close> is false.
\<close>

definition js_lt :: "jsval \<Rightarrow> jsval \<Rightarrow> bool" where
  "js_lt a b =
     (case (ToPrimitive a, ToPrimitive b) of
        (Str s, Str t) \<Rightarrow> str_lt s t
      | (pa, pb) \<Rightarrow> num_lt (ToNumber pa) (ToNumber pb))"

definition js_le :: "jsval \<Rightarrow> jsval \<Rightarrow> bool" where
  "js_le a b =
     (case (ToPrimitive a, ToPrimitive b) of
        (Str s, Str t) \<Rightarrow> \<not> str_lt t s
      | (pa, pb) \<Rightarrow>
          ToNumber pa \<noteq> NaN \<and> ToNumber pb \<noteq> NaN \<and> \<not> num_lt (ToNumber pb) (ToNumber pa))"

definition js_mul :: "jsval \<Rightarrow> jsval \<Rightarrow> jsnum" where
  "js_mul a b = num_mul (ToNumber a) (ToNumber b)"

definition js_sub :: "jsval \<Rightarrow> jsval \<Rightarrow> jsnum" where
  "js_sub a b = num_sub (ToNumber a) (ToNumber b)"

definition typeof_number :: "jsval \<Rightarrow> bool" where
  "typeof_number v = (case v of Num n \<Rightarrow> True | _ \<Rightarrow> False)"

definition Number_isInteger :: "jsval \<Rightarrow> bool" where
  "Number_isInteger v = (case v of Num (Fin r) \<Rightarrow> r = of_int \<lfloor>r\<rfloor> | _ \<Rightarrow> False)"

definition js_parseFloat :: "jsval \<Rightarrow> jsnum" where
  "js_parseFloat v = parseFloat_s (ToString v)"

definition js_parseInt :: "jsval \<Rightarrow> jsnum" where
  "js_parseInt v = parseInt_s (ToString v)"

text \<open>
  Reading a property of a value that came from JSON. On \<^verbatim>\<open>null\<close> and \<^verbatim>\<open>undefined\<close> the
  access throws a \<^verbatim>\<open>TypeError\<close> (\<open>nullish\<close>, tested by the caller); an object gives the
  value stored under the key, anything else \<^verbatim>\<open>undefined\<close> for the keys read here.
\<close>

definition nullish :: "jsval \<Rightarrow> bool" where
  "nullish v = (v = Null \<or> v = Undefined)"

definition get_prop :: "jsval \<Rightarrow> string \<Rightarrow> jsval" where
  "get_prop v k =
     (case v of
        Obj kvs \<Rightarrow> (case map_of kvs k of None \<Rightarrow> Undefined | Some x \<Rightarrow> x)
      | _ \<Rightarrow> Undefined)"

section \<open>The two documents\<close>

text \<open>
  \<^verbatim>\<open>data/productos.json\<close> is an array of products and \<^verbatim>\<open>data/ventas.json\<close> an array of
  sales. A record is used twice: with the values the handler computes with
  (\<open>jsval\<close>, \<open>jsnum\<close>), and as it stands in the document, where a number is finite or
  \<^verbatim>\<open>null\<close> (\<open>rat option\<close>): \<^verbatim>\<open>JSON.stringify\<close> writes \<^verbatim>\<open>null\<close> for \<open>NaN\<close> and the
  infinities. The fields of a product are typed as the handlers write them: the id is a
  finite number, \<^verbatim>\<open>nombre\<close> a string (\<^verbatim>\<open>trim\<close> made it), \<^verbatim>\<open>activo\<close> a boolean, and
  \<^verbatim>\<open>precio\<close> and \<^verbatim>\<open>stock\<close> numbers or \<^verbatim>\<open>null\<close>.
\<close>

record 'n producto =
  id_producto :: rat
  nombre :: string
  precio :: 'n
  activo :: bool
  stock :: 'n

record ('p, 'n) detalle =
  det_id_producto :: rat
  det_nombre :: string
  cantidad :: jsval
  precio_unitario :: 'p
  subtotal :: 'n

record ('p, 'n) venta =
  id_venta :: string
  id_usuario :: jsval
  fecha :: string
  items :: "('p, 'n) detalle list"
  total_venta :: 'n

definition JSON_parse_num :: "rat option \<Rightarrow> jsval" where
  "JSON_parse_num x = (case x of None \<Rightarrow> Null | Some r \<Rightarrow> Num (Fin r))"

fun JSON_stringify_jsnum :: "jsnum \<Rightarrow> rat option" where
  "JSON_stringify_jsnum (Fin r) = Some r"
| "JSON_stringify_jsnum NaN = None"
| "JSON_stringify_jsnum PInf = None"
| "JSON_stringify_jsnum NInf = None"

text \<open>The value of \<^verbatim>\<open>precio\<close> or \<^verbatim>\<open>stock\<close> in memory is \<^verbatim>\<open>null\<close> or a number.\<close>

definition JSON_stringify_num :: "jsval \<Rightarrow> rat option" where
  "JSON_stringify_num v = (case v of Num n \<Rightarrow> JSON_stringify_jsnum n | _ \<Rightarrow> None)"

definition parse_producto :: "rat option producto \<Rightarrow> jsval producto" where
  "parse_producto p =
     \<lparr>id_producto = id_producto p, nombre = nombre p, precio = JSON_parse_num (precio p),
      activo = activo p, stock = JSON_parse_num (stock p)\<rparr>"

definition stringify_producto :: "jsval producto \<Rightarrow> rat option producto" where
  "stringify_producto p =
     \<lparr>id_producto = id_producto p, nombre = nombre p, precio = JSON_stringify_num (precio p),
      activo = activo p, stock = JSON_stringify_num (stock p)\<rparr>"

definition stringify_detalle ::
    "(jsval, jsnum) detalle \<Rightarrow> (rat option, rat option) detalle" where
  "stringify_detalle d =
     \<lparr>det_id_producto = det_id_producto d, det_nombre = det_nombre d, cantidad = cantidad d,
      precio_unitario = JSON_stringify_num (precio_unitario d),
      subtotal = JSON_stringify_jsnum (subtotal d)\<rparr>"

definition stringify_venta ::
    "(jsval, jsnum) venta \<Rightarrow> (rat option, rat option) venta" where
  "stringify_venta v =
     \<lparr>id_venta = id_venta v, id_usuario = id_usuario v, fecha = fecha v,
      items = map stringify_detalle (items v),
      total_venta = JSON_stringify_jsnum (total_venta v)\<rparr>"

text \<open>
  The file system: the content of the two documents, and the trace of the calls of
  \<^verbatim>\<open>escribirJSON\<close>, so that "nothing was written" can be told from "the same was written".
  Both files are taken to exist and to hold well-formed documents.
\<close>

datatype archivo = Productos_json | Ventas_json

record almacen =
  DB_PRODUCTOS :: "rat option producto list"
  DB_VENTAS :: "(rat option, rat option) venta list"
  escrituras :: "archivo list"

definition leerJSON_productos :: "almacen \<Rightarrow> jsval producto list" where
  "leerJSON_productos st = map parse_producto (DB_PRODUCTOS st)"

definition escribirJSON_productos :: "almacen \<Rightarrow> jsval producto list \<Rightarrow> almacen" where
  "escribirJSON_productos st productos =
     st\<lparr>DB_PRODUCTOS := map stringify_producto productos,
        escrituras := escrituras st @ [Productos_json]\<rparr>"

text \<open>
  The handlers never compute with a sale they read: the sales read are written back as
  they were, after them the new one.
\<close>

definition leerJSON_ventas :: "almacen \<Rightarrow> (rat option, rat option) venta list" where
  "leerJSON_ventas st = DB_VENTAS st"

definition escribirJSON_ventas ::
    "almacen \<Rightarrow> (rat option, rat option) venta list \<Rightarrow> almacen" where
  "escribirJSON_ventas st ventas =
     st\<lparr>DB_VENTAS := ventas, escrituras := escrituras st @ [Ventas_json]\<rparr>"

section \<open>The handlers\<close>

text \<open>
  A handler takes the store and the fields it destructures from \<^verbatim>\<open>req.body\<close>
  (\<open>Undefined\<close> for a missing field) and returns the response and the store. A response
  is the payload of a success, or the kind of the failure; the texts of the messages are
  not modelled. An exception inside \<^verbatim>\<open>try\<close> is caught and answered with status 500.
\<close>

datatype error = ValidationError | NotFoundError | ConflictError | InternalError

fun status :: "error \<Rightarrow> nat" where
  "status ValidationError = 400"
| "status NotFoundError = 404"
| "status ConflictError = 409"
| "status InternalError = 500"

fun findIndex :: "('a \<Rightarrow> bool) \<Rightarrow> 'a list \<Rightarrow> nat option" where
  "findIndex P [] = None"
| "findIndex P (x # xs) = (if P x then Some 0 else map_option Suc (findIndex P xs))"

subsection \<open>\<^verbatim>\<open>GET /productos\<close> and \<^verbatim>\<open>GET /ventas\<close>\<close>


definition get_ventas :: "almacen \<Rightarrow> (rat option, rat option) venta list" where
  "get_ventas st = leerJSON_ventas st"

subsection \<open>\<^verbatim>\<open>POST /producto\<close>\<close>

text \<open>
  \<^verbatim>\<open>productos.length > 0 ? Math.max(...productos.map(p => p.id_producto)) + 1 : 1\<close>
\<close>

fun nuevoId :: "rat list \<Rightarrow> rat" where
  "nuevoId [] = 1"
| "nuevoId (x # xs) = fold max xs x + 1"

text \<open>
  The three validations return 400. After them \<^verbatim>\<open>nombre.trim()\<close> is called: a truthy
  \<^verbatim>\<open>nombre\<close> that is not a string has no such method, and the \<^verbatim>\<open>TypeError\<close> is answered
  with 500 before anything is written.
\<close>

definition post_producto ::
    "almacen \<Rightarrow> jsval \<Rightarrow> jsval \<Rightarrow> jsval \<Rightarrow> (error + jsval producto) \<times> almacen" where
  "post_producto st nombre' precio' stock' =
     (if \<not> truthy nombre' \<or> precio' = Undefined \<or> stock' = Undefined
      then (Inl ValidationError, st)
      else if \<not> typeof_number precio' \<or> js_lt precio' (Num (Fin 0))
      then (Inl ValidationError, st)
      else if \<not> Number_isInteger stock' \<or> js_lt stock' (Num (Fin 0))
      then (Inl ValidationError, st)
      else
        let productos = leerJSON_productos st;
            nuevo = nuevoId (map id_producto productos)
        in case nombre' of
             Str s \<Rightarrow>
               let nuevoProducto =
                     \<lparr>id_producto = nuevo, nombre = trim s,
                      precio = Num (toFixed2 (ToNumber precio')),
                      activo = True, stock = stock'\<rparr>
               in (Inr nuevoProducto,
                   escribirJSON_productos st (productos @ [nuevoProducto]))
           | _ \<Rightarrow> (Inl InternalError, st))"

subsection \<open>\<^verbatim>\<open>PUT /producto\<close>\<close>

text \<open>
  The four assignments of lines 137 to 140, in their order. The first one throws when
  \<^verbatim>\<open>nombre\<close> is given and is not a string (\<open>None\<close>).
\<close>

definition actualizar_campos ::
    "jsval \<Rightarrow> jsval \<Rightarrow> jsval \<Rightarrow> jsval \<Rightarrow> jsval producto \<Rightarrow> jsval producto option" where
  "actualizar_campos nombre' precio' stock' activo' p =
     (let p1 = (if nombre' \<noteq> Undefined
                then (case nombre' of Str s \<Rightarrow> Some (p\<lparr>nombre := trim s\<rparr>) | _ \<Rightarrow> None)
                else Some p)
      in case p1 of
           None \<Rightarrow> None
         | Some q1 \<Rightarrow>
             let q2 = (if precio' \<noteq> Undefined
                       then q1\<lparr>precio := Num (toFixed2 (js_parseFloat precio'))\<rparr> else q1);
                 q3 = (if stock' \<noteq> Undefined
                       then q2\<lparr>stock := Num (js_parseInt stock')\<rparr> else q2);
                 q4 = (if activo' \<noteq> Undefined
                       then q3\<lparr>activo := truthy activo'\<rparr> else q3)
             in Some q4)"

definition put_producto ::
    "almacen \<Rightarrow> jsval \<Rightarrow> jsval \<Rightarrow> jsval \<Rightarrow> jsval \<Rightarrow> jsval \<Rightarrow>
     (error + jsval producto) \<times> almacen" where
  "put_producto st id' nombre' precio' stock' activo' =
     (if \<not> truthy id' then (Inl ValidationError, st)
      else
        let productos = leerJSON_productos st
        in case findIndex (\<lambda>p. strict_eq (Num (Fin (id_producto p))) id') productos of
             None \<Rightarrow> (Inl NotFoundError, st)
           | Some idx \<Rightarrow>
               (case actualizar_campos nombre' precio' stock' activo' (productos ! idx) of
                  None \<Rightarrow> (Inl InternalError, st)
                | Some p \<Rightarrow>
                    (Inr p, escribirJSON_productos st (productos[idx := p]))))"

subsection \<open>\<^verbatim>\<open>DELETE /producto\<close>\<close>

definition delete_producto :: "almacen \<Rightarrow> jsval \<Rightarrow> (error + unit) \<times> almacen" where
  "delete_producto st id' =
     (if \<not> truthy id' then (Inl ValidationError, st)
      else
        let productos = leerJSON_productos st
        in case findIndex (\<lambda>p. strict_eq (Num (Fin (id_producto p))) id') productos of
             None \<Rightarrow> (Inl NotFoundError, st)
           | Some idx \<Rightarrow>
               (Inr (),
                escribirJSON_productos st
                  (productos[idx := (productos ! idx)\<lparr>activo := False\<rparr>])))"

subsection \<open>\<^verbatim>\<open>POST /venta\<close>\<close>

text \<open>
  Step 1, the loop of lines 221 to 225. Reading \<^verbatim>\<open>item.id_producto\<close> of an entry that
  is \<^verbatim>\<open>null\<close> throws, which is answered with 500.
\<close>

fun validar_items :: "jsval list \<Rightarrow> error option" where
  "validar_items [] = None"
| "validar_items (item # rest) =
     (if nullish item then Some InternalError
      else if \<not> truthy (get_prop item ''id_producto'') \<or>
              \<not> truthy (get_prop item ''cantidad'') \<or>
              js_le (get_prop item ''cantidad'') (Num (Fin 0))
      then Some ValidationError
      else validar_items rest)"

text \<open>
  Step 2, the loop of lines 231 to 251: every item is looked up and checked against
  \<^verbatim>\<open>productos\<close> as read, and its line is built. \<open>buscar_activo\<close> is
  \<^verbatim>\<open>productos.find(p => p.id_producto === item.id_producto && p.activo)\<close> and \<open>linea\<close>
  the object pushed on \<^verbatim>\<open>itemsDetalle\<close>.
\<close>

definition buscar_activo :: "jsval producto list \<Rightarrow> jsval \<Rightarrow> jsval producto option" where
  "buscar_activo productos item =
     find (\<lambda>p. strict_eq (Num (Fin (id_producto p))) (get_prop item ''id_producto'')
                \<and> activo p) productos"

definition linea :: "jsval producto \<Rightarrow> jsval \<Rightarrow> (jsval, jsnum) detalle" where
  "linea producto item =
     \<lparr>det_id_producto = id_producto producto,
      det_nombre = nombre producto,
      cantidad = get_prop item ''cantidad'',
      precio_unitario = precio producto,
      subtotal = toFixed2 (js_mul (precio producto) (get_prop item ''cantidad''))\<rparr>"

fun verificar_stock ::
    "jsval producto list \<Rightarrow> jsval list \<Rightarrow> error + (jsval, jsnum) detalle list" where
  "verificar_stock productos [] = Inr []"
| "verificar_stock productos (item # rest) =
     (case buscar_activo productos item of
        None \<Rightarrow> Inl NotFoundError
      | Some producto \<Rightarrow>
          if js_lt (stock producto) (get_prop item ''cantidad'') then Inl ConflictError
          else
            (case verificar_stock productos rest of
               Inl e \<Rightarrow> Inl e
             | Inr itemsDetalle \<Rightarrow> Inr (linea producto item # itemsDetalle)))"

text \<open>Step 3, \<^verbatim>\<open>itemsDetalle.reduce((acc, i) => acc + i.subtotal, 0)\<close>, rounded.\<close>

definition calcular_total :: "(jsval, jsnum) detalle list \<Rightarrow> jsnum" where
  "calcular_total itemsDetalle =
     toFixed2 (foldl (\<lambda>acc i. num_add acc (subtotal i)) (Fin 0) itemsDetalle)"

text \<open>
  Step 4, the loop of lines 259 to 262, on the products in memory. \<^verbatim>\<open>findIndex\<close> looks
  for the id alone; were it to find nothing, \<^verbatim>\<open>productos[-1].stock\<close> would throw.
\<close>

fun descontar_stock ::
    "(jsval, jsnum) detalle list \<Rightarrow> jsval producto list \<Rightarrow> jsval producto list option" where
  "descontar_stock [] productos = Some productos"
| "descontar_stock (item # rest) productos =
     (case findIndex (\<lambda>p. id_producto p = det_id_producto item) productos of
        None \<Rightarrow> None
      | Some idx \<Rightarrow>
          descontar_stock rest
            (productos[idx := (productos ! idx)
               \<lparr>stock := Num (js_sub (stock (productos ! idx)) (cantidad item))\<rparr>]))"

text \<open>
  The handler. \<^verbatim>\<open>uuid\<close> is what \<^verbatim>\<open>uuidv4()\<close> returns and \<^verbatim>\<open>ahora\<close> what
  \<^verbatim>\<open>new Date().toISOString()\<close> returns; \<^verbatim>\<open>id_usuario\<close> defaults to \<^verbatim>\<open>null\<close>.
\<close>

definition post_venta ::
    "almacen \<Rightarrow> jsval \<Rightarrow> jsval \<Rightarrow> string \<Rightarrow> string \<Rightarrow>
     (error + (jsval, jsnum) venta) \<times> almacen" where
  "post_venta st items' id_usuario' uuid ahora =
     (case items' of
        Arr its \<Rightarrow>
          if length its = 0 then (Inl ValidationError, st)
          else
            (case validar_items its of
               Some e \<Rightarrow> (Inl e, st)
             | None \<Rightarrow>
                 let productos = leerJSON_productos st
                 in (case verificar_stock productos its of
                      Inl e \<Rightarrow> (Inl e, st)
                    | Inr itemsDetalle \<Rightarrow>
                        (case descontar_stock itemsDetalle productos of
                           None \<Rightarrow> (Inl InternalError, st)
                         | Some productos' \<Rightarrow>
                             let st1 = escribirJSON_productos st productos';
                                 ventas = leerJSON_ventas st1;
                                 nuevaVenta =
                                   \<lparr>id_venta = uuid,
                                    id_usuario =
                                      (if id_usuario' = Undefined then Null else id_usuario'),
                                    fecha = ahora,
                                    items = itemsDetalle,
                                    total_venta = calcular_total itemsDetalle\<rparr>
                             in (Inr nuevaVenta,
                                 escribirJSON_ventas st1
                                   (ventas @ [stringify_venta nuevaVenta])))))
      | _ \<Rightarrow> (Inl ValidationError, st))"

section \<open>Notions used to state the properties\<close>

text \<open>
  An item passes step 1 (\<open>item_valido\<close>); an item passes step 2 against the products
  as read (\<open>item_con_stock\<close>).
\<close>

definition item_valido :: "jsval \<Rightarrow> bool" where
  "item_valido item =
     (\<not> nullish item \<and> truthy (get_prop item ''id_producto'') \<and>
      truthy (get_prop item ''cantidad'') \<and>
      \<not> js_le (get_prop item ''cantidad'') (Num (Fin 0)))"

definition item_con_stock :: "jsval producto list \<Rightarrow> jsval \<Rightarrow> bool" where
  "item_con_stock productos item =
     (case buscar_activo productos item of
        None \<Rightarrow> False
      | Some producto \<Rightarrow> \<not> js_lt (stock producto) (get_prop item ''cantidad''))"





text \<open>A stored product whose stock is a number that is not negative.\<close>

definition stock_no_negativo :: "rat option producto \<Rightarrow> bool" where
  "stock_no_negativo p = (case stock p of None \<Rightarrow> False | Some s \<Rightarrow> 0 \<le> s)"

subsection \<open>A small store\<close>

definition widget :: "rat option producto" where
  "widget =
     \<lparr>id_producto = 1, nombre = ''Widget'', precio = Some 10, activo = True, stock = Some 2\<rparr>"

definition gadget :: "rat option producto" where
  "gadget =
     \<lparr>id_producto = 2, nombre = ''Gadget'', precio = Some (5 / 2), activo = True,
      stock = Some 7\<rparr>"

definition tienda :: almacen where
  "tienda = \<lparr>DB_PRODUCTOS = [widget, gadget], DB_VENTAS = [], escrituras = []\<rparr>"

text \<open>The item \<^verbatim>\<open>{ id_producto: i, cantidad: q }\<close>.\<close>

definition pedir :: "rat \<Rightarrow> rat \<Rightarrow> jsval" where
  "pedir i q = Obj [(''id_producto'', Num (Fin i)), (''cantidad'', Num (Fin q))]"

section \<open>Lemmas on the model\<close>

subsection \<open>Documents and lists\<close>

lemma JSON_stringify_parse_num: "JSON_stringify_num (JSON_parse_num x) = x"
  by (cases x) (simp_all add: JSON_stringify_num_def JSON_parse_num_def)

lemma stringify_parse_producto: "stringify_producto (parse_producto p) = p"
  by (simp add: stringify_producto_def parse_producto_def JSON_stringify_parse_num)

lemma stringify_leerJSON: "map stringify_producto (leerJSON_productos st) = DB_PRODUCTOS st"
  by (simp add: leerJSON_productos_def stringify_parse_producto map_idI)

lemma ids_leerJSON: "map id_producto (leerJSON_productos st) = map id_producto (DB_PRODUCTOS st)"
  by (simp add: leerJSON_productos_def parse_producto_def)


lemma findIndex_map_gen: "findIndex P (map f xs) = findIndex (\<lambda>x. P (f x)) xs"
  by (induction xs) auto

lemma findIndex_Some: "findIndex P xs = Some k \<Longrightarrow> k < length xs \<and> P (xs ! k)"
proof (induction xs arbitrary: k)
  case Nil
  then show ?case by simp
next
  case (Cons x xs)
  then show ?case by (cases "P x") (auto split: if_splits)
qed

lemma findIndex_None_iff: "findIndex P xs = None \<longleftrightarrow> (\<forall>x \<in> set xs. \<not> P x)"
  by (induction xs) auto

lemma map_update_same: "f y = f (ps ! k) \<Longrightarrow> map f (ps[k := y]) = map f ps"
  by (metis list_update_id map_update)

lemma findIndex_same_ids:
  assumes "map id_producto ys = map id_producto xs"
  shows "findIndex (\<lambda>p. Q (id_producto p)) ys = findIndex (\<lambda>p. Q (id_producto p)) xs"
proof -
  have "findIndex (\<lambda>p. Q (id_producto p)) ys = findIndex Q (map id_producto ys)"
    by (simp add: findIndex_map_gen)
  also have "\<dots> = findIndex Q (map id_producto xs)" by (simp add: assms)
  also have "\<dots> = findIndex (\<lambda>p. Q (id_producto p)) xs" by (simp add: findIndex_map_gen)
  finally show ?thesis .
qed

lemma findIndex_leerJSON:
  "findIndex (\<lambda>p. strict_eq (Num (Fin (id_producto p))) v) (leerJSON_productos st) =
   findIndex (\<lambda>p. strict_eq (Num (Fin (id_producto p))) v) (DB_PRODUCTOS st)"
  by (simp add: leerJSON_productos_def findIndex_map_gen parse_producto_def)

lemma stringify_update:
  "map stringify_producto ((leerJSON_productos st)[idx := q]) =
   (DB_PRODUCTOS st)[idx := stringify_producto q]"
  by (simp add: map_update stringify_leerJSON)


subsection \<open>The steps of a sale\<close>

lemma validar_items_None_iff: "validar_items its = None \<longleftrightarrow> list_all item_valido its"
  by (induction its) (auto simp: item_valido_def)

lemma validar_items_Some: "\<not> list_all item_valido its \<Longrightarrow> \<exists>e. validar_items its = Some e"
  using validar_items_None_iff by (cases "validar_items its") auto


lemma verificar_stock_Cons_Inr:
  assumes "verificar_stock ps (item # rest) = Inr ds"
  shows "\<exists>p ds'. buscar_activo ps item = Some p \<and>
           \<not> js_lt (stock p) (get_prop item ''cantidad'') \<and>
           verificar_stock ps rest = Inr ds' \<and> ds = linea p item # ds'"
proof -
  from assms obtain p where p: "buscar_activo ps item = Some p"
    by (cases "buscar_activo ps item") simp_all
  from assms p have l: "\<not> js_lt (stock p) (get_prop item ''cantidad'')"
    by (auto split: if_splits)
  from assms p l obtain ds' where ds': "verificar_stock ps rest = Inr ds'"
    by (cases "verificar_stock ps rest") simp_all
  from assms p l ds' have "ds = linea p item # ds'" by simp
  with p l ds' show ?thesis by blast
qed

lemma verificar_stock_Inr_iff:
  "(\<exists>ds. verificar_stock ps its = Inr ds) \<longleftrightarrow> list_all (item_con_stock ps) its"
proof (induction its)
  case Nil
  then show ?case by simp
next
  case (Cons item rest)
  show ?case
  proof
    assume "\<exists>ds. verificar_stock ps (item # rest) = Inr ds"
    then obtain ds where "verificar_stock ps (item # rest) = Inr ds" by blast
    from verificar_stock_Cons_Inr[OF this] obtain p ds' where
      p: "buscar_activo ps item = Some p" and
      l: "\<not> js_lt (stock p) (get_prop item ''cantidad'')" and
      r: "verificar_stock ps rest = Inr ds'" by blast
    from p l have "item_con_stock ps item" by (simp add: item_con_stock_def)
    moreover from r Cons.IH have "list_all (item_con_stock ps) rest" by blast
    ultimately show "list_all (item_con_stock ps) (item # rest)" by simp
  next
    assume a: "list_all (item_con_stock ps) (item # rest)"
    then have "item_con_stock ps item" by simp
    then obtain p where p: "buscar_activo ps item = Some p"
      and l: "\<not> js_lt (stock p) (get_prop item ''cantidad'')"
      by (auto simp: item_con_stock_def split: option.splits)
    from a have "list_all (item_con_stock ps) rest" by simp
    with Cons.IH obtain ds' where "verificar_stock ps rest = Inr ds'" by blast
    with p l show "\<exists>ds. verificar_stock ps (item # rest) = Inr ds" by simp
  qed
qed










subsection \<open>The handlers, case by case\<close>

lemma post_venta_error_unchanged:
  "fst (post_venta st items' u u' a) = Inl e \<Longrightarrow> snd (post_venta st items' u u' a) = st"
  by (auto simp: post_venta_def Let_def split: jsval.splits option.splits sum.splits if_splits)

lemma post_venta_verificar_Inl:
  assumes "list_all item_valido its" "its \<noteq> []"
    "verificar_stock (leerJSON_productos st) its = Inl e"
  shows "post_venta st (Arr its) u u' a = (Inl e, st)"
  using assms by (simp add: post_venta_def Let_def validar_items_None_iff[symmetric])







lemma nuevoId_Max: "ids \<noteq> [] \<Longrightarrow> nuevoId ids = Max (set ids) + 1"
  by (cases ids) (simp_all add: Max.set_eq_fold[symmetric])

lemma nuevoId_fresh: "nuevoId ids \<notin> set ids"
proof (cases ids)
  case Nil
  then show ?thesis by simp
next
  case (Cons x xs)
  then have ne: "ids \<noteq> []" by simp
  show ?thesis
  proof
    assume "nuevoId ids \<in> set ids"
    then have "nuevoId ids \<le> Max (set ids)" by simp
    with nuevoId_Max[OF ne] show False by simp
  qed
qed




lemma delete_producto_eq:
  "delete_producto st v =
     (if \<not> truthy v then (Inl ValidationError, st)
      else case findIndex (\<lambda>p. strict_eq (Num (Fin (id_producto p))) v) (DB_PRODUCTOS st) of
             None \<Rightarrow> (Inl NotFoundError, st)
           | Some idx \<Rightarrow>
               (Inr (),
                st\<lparr>DB_PRODUCTOS :=
                      (DB_PRODUCTOS st)[idx := (DB_PRODUCTOS st ! idx)\<lparr>activo := False\<rparr>],
                    escrituras := escrituras st @ [Productos_json]\<rparr>))"
proof (cases "findIndex (\<lambda>p. strict_eq (Num (Fin (id_producto p))) v) (DB_PRODUCTOS st)")
  case None
  then show ?thesis by (simp add: delete_producto_def Let_def findIndex_leerJSON)
next
  case (Some idx)
  then have lt: "idx < length (DB_PRODUCTOS st)" using findIndex_Some by blast
  have "stringify_producto ((leerJSON_productos st ! idx)\<lparr>activo := False\<rparr>) =
        (DB_PRODUCTOS st ! idx)\<lparr>activo := False\<rparr>"
    using lt by (simp add: leerJSON_productos_def stringify_producto_def parse_producto_def
        JSON_stringify_parse_num)
  with Some show ?thesis
    by (simp add: delete_producto_def Let_def findIndex_leerJSON escribirJSON_productos_def
        stringify_update)
qed


lemma delete_producto_Inr:
  assumes "delete_producto st v = (Inr (), st1)"
  shows "truthy v \<and>
         (\<exists>idx < length (DB_PRODUCTOS st).
            findIndex (\<lambda>p. strict_eq (Num (Fin (id_producto p))) v) (DB_PRODUCTOS st) =
              Some idx \<and>
            st1 = st\<lparr>DB_PRODUCTOS :=
                        (DB_PRODUCTOS st)[idx := (DB_PRODUCTOS st ! idx)\<lparr>activo := False\<rparr>],
                      escrituras := escrituras st @ [Productos_json]\<rparr>)"
proof -
  from assms have t: "truthy v" by (auto simp: delete_producto_eq split: if_splits)
  from assms t obtain idx where
    idx: "findIndex (\<lambda>p. strict_eq (Num (Fin (id_producto p))) v) (DB_PRODUCTOS st) = Some idx"
    by (cases "findIndex (\<lambda>p. strict_eq (Num (Fin (id_producto p))) v) (DB_PRODUCTOS st)")
       (simp_all add: delete_producto_eq)
  then have "idx < length (DB_PRODUCTOS st)" using findIndex_Some by blast
  moreover from assms t idx have
    "st1 = st\<lparr>DB_PRODUCTOS :=
                 (DB_PRODUCTOS st)[idx := (DB_PRODUCTOS st ! idx)\<lparr>activo := False\<rparr>],
              escrituras := escrituras st @ [Productos_json]\<rparr>"
    by (simp add: delete_producto_eq)
  ultimately show ?thesis using t idx by blast
qed







subsection \<open>What creating and deactivating a product keep\<close>

lemma post_producto_cases:
  "(\<exists>e. post_producto st n p s = (Inl e, st)) \<or>
   (\<exists>q. post_producto st n p s =
           (Inr q, st\<lparr>DB_PRODUCTOS := DB_PRODUCTOS st @ [stringify_producto q],
                         escrituras := escrituras st @ [Productos_json]\<rparr>) \<and>
         id_producto q = nuevoId (map id_producto (DB_PRODUCTOS st)) \<and>
         stock q = s \<and> Number_isInteger s \<and> \<not> js_lt s (Num (Fin 0)))"
proof (cases "\<not> truthy n \<or> p = Undefined \<or> s = Undefined")
  case True
  then show ?thesis by (simp add: post_producto_def)
next
  case c1: False
  show ?thesis
  proof (cases "\<not> typeof_number p \<or> js_lt p (Num (Fin 0))")
    case True
    with c1 show ?thesis by (simp add: post_producto_def)
  next
    case c2: False
    show ?thesis
    proof (cases "\<not> Number_isInteger s \<or> js_lt s (Num (Fin 0))")
      case True
      with c1 c2 show ?thesis by (simp add: post_producto_def)
    next
      case c3: False
      show ?thesis
      proof (cases "\<exists>t. n = Str t")
        case True
        then obtain t where "n = Str t" by blast
        with c1 c2 c3 show ?thesis
          by (simp add: post_producto_def Let_def escribirJSON_productos_def
              stringify_leerJSON ids_leerJSON del: toFixed2.simps)
      next
        case False
        with c1 c2 c3 have "post_producto st n p s = (Inl InternalError, st)"
          by (cases n) (simp_all add: post_producto_def Let_def)
        then show ?thesis by blast
      qed
    qed
  qed
qed

lemma post_producto_stock_no_negativo:
  assumes "list_all stock_no_negativo (DB_PRODUCTOS st)"
  shows "list_all stock_no_negativo (DB_PRODUCTOS (snd (post_producto st n p s)))"
proof -
  from post_producto_cases[of st n p s] show ?thesis
  proof (elim disjE exE conjE)
    fix e
    assume "post_producto st n p s = (Inl e, st)"
    with assms show ?thesis by simp
  next
    fix q
    assume r: "post_producto st n p s =
           (Inr q, st\<lparr>DB_PRODUCTOS := DB_PRODUCTOS st @ [stringify_producto q],
                         escrituras := escrituras st @ [Productos_json]\<rparr>)"
      and sq: "stock q = s" and i: "Number_isInteger s" and l: "\<not> js_lt s (Num (Fin 0))"
    from i obtain x where x: "s = Num (Fin x)"
      by (auto simp: Number_isInteger_def split: jsval.splits jsnum.splits)
    with l have "0 \<le> x" by (simp add: js_lt_def)
    with x sq have "stock_no_negativo (stringify_producto q)"
      by (simp add: stock_no_negativo_def stringify_producto_def JSON_stringify_num_def)
    with assms r show ?thesis by simp
  qed
qed

lemma delete_producto_stock_no_negativo:
  assumes "list_all stock_no_negativo (DB_PRODUCTOS st)"
  shows "list_all stock_no_negativo (DB_PRODUCTOS (snd (delete_producto st v)))"
proof -
  have "map stock (DB_PRODUCTOS (snd (delete_producto st v))) = map stock (DB_PRODUCTOS st)"
    by (simp add: delete_producto_eq map_update_same split: option.splits)
  moreover have "\<And>xs. list_all stock_no_negativo xs =
      list_all (\<lambda>s. case s of None \<Rightarrow> False | Some s \<Rightarrow> 0 \<le> s) (map stock xs)"
    by (simp add: list_all_iff stock_no_negativo_def)
  ultimately show ?thesis using assms by simp
qed

lemma post_producto_distinct:
  assumes "distinct (map id_producto (DB_PRODUCTOS st))"
  shows "distinct (map id_producto (DB_PRODUCTOS (snd (post_producto st n p s))))"
proof -
  from post_producto_cases[of st n p s] show ?thesis
  proof (elim disjE exE conjE)
    fix e
    assume "post_producto st n p s = (Inl e, st)"
    with assms show ?thesis by simp
  next
    fix q
    assume r: "post_producto st n p s =
           (Inr q, st\<lparr>DB_PRODUCTOS := DB_PRODUCTOS st @ [stringify_producto q],
                         escrituras := escrituras st @ [Productos_json]\<rparr>)"
      and iq: "id_producto q = nuevoId (map id_producto (DB_PRODUCTOS st))"
    have "id_producto (stringify_producto q) \<notin> set (map id_producto (DB_PRODUCTOS st))"
      using nuevoId_fresh[of "map id_producto (DB_PRODUCTOS st)"] iq
      by (simp add: stringify_producto_def)
    with assms r show ?thesis by simp
  qed
qed

section \<open>Recording a sale\<close>

text \<open>
  Claim C1. A sale is all or nothing. Whenever \<^verbatim>\<open>POST /venta\<close> answers with an error,
  the store it leaves is the store it found: no stock has changed, no document has been
  written (the trace of writes is the same) and no sale has been appended. It answers
  with an error as soon as one item of the list fails the validation of step 1 or the
  lookup and stock check of step 2 against the products as read; so every item has passed
  both before any stock is decremented.
\<close>

theorem post_venta_all_or_nothing:
  "(\<forall>e. fst (post_venta st items' u u' a) = Inl e \<longrightarrow> snd (post_venta st items' u u' a) = st) \<and>
   (\<forall>its. items' = Arr its \<longrightarrow>
      (\<exists>item \<in> set its.
          \<not> item_valido item \<or> \<not> item_con_stock (leerJSON_productos st) item) \<longrightarrow>
      (\<exists>e. post_venta st items' u u' a = (Inl e, st)))"
proof (intro conjI allI impI)
  fix e
  assume "fst (post_venta st items' u u' a) = Inl e"
  then show "snd (post_venta st items' u u' a) = st" by (rule post_venta_error_unchanged)
next
  fix its
  assume its: "items' = Arr its"
    and bad: "\<exists>item \<in> set its.
                \<not> item_valido item \<or> \<not> item_con_stock (leerJSON_productos st) item"
  then have ne: "its \<noteq> []" by auto
  show "\<exists>e. post_venta st items' u u' a = (Inl e, st)"
  proof (cases "list_all item_valido its")
    case False
    then obtain e where "validar_items its = Some e" using validar_items_Some by blast
    then show ?thesis using its by (simp add: post_venta_def)
  next
    case True
    from True bad have "\<not> list_all (item_con_stock (leerJSON_productos st)) its"
      by (auto simp: list_all_iff)
    then have "\<forall>ds. verificar_stock (leerJSON_productos st) its \<noteq> Inr ds"
      using verificar_stock_Inr_iff by blast
    then obtain e where "verificar_stock (leerJSON_productos st) its = Inl e"
      by (cases "verificar_stock (leerJSON_productos st) its") auto
    from post_venta_verificar_Inl[OF True ne this] its show ?thesis by blast
  qed
qed

theorem post_venta_all_or_nothing_witness:
  "fst (post_venta tienda (Arr [pedir 2 1, pedir 1 3]) Undefined ''v1'' ''t1'') =
     Inl ConflictError \<and>
   snd (post_venta tienda (Arr [pedir 2 1, pedir 1 3]) Undefined ''v1'' ''t1'') = tienda \<and>
   \<not> item_con_stock (leerJSON_productos tienda) (pedir 1 3) \<and>
   (\<exists>e. post_venta tienda (Arr [pedir 2 1, pedir 1 3]) Undefined ''v1'' ''t1'' =
          (Inl e, tienda))"
proof -
  have h1: "fst (post_venta tienda (Arr [pedir 2 1, pedir 1 3]) Undefined ''v1'' ''t1'') =
     Inl ConflictError" by code_simp
  have h2: "\<not> item_con_stock (leerJSON_productos tienda) (pedir 1 3)" by code_simp
  note T = post_venta_all_or_nothing
    [of tienda "Arr [pedir 2 1, pedir 1 3]" Undefined "''v1''" "''t1''"]
  from T h1 have c1:
    "snd (post_venta tienda (Arr [pedir 2 1, pedir 1 3]) Undefined ''v1'' ''t1'') = tienda"
    by blast
  from h2 have "\<exists>item \<in> set [pedir 2 1, pedir 1 3].
      \<not> item_valido item \<or> \<not> item_con_stock (leerJSON_productos tienda) item" by simp
  with T have c2: "\<exists>e. post_venta tienda (Arr [pedir 2 1, pedir 1 3]) Undefined ''v1'' ''t1'' =
          (Inl e, tienda)" by blast
  from h1 c1 h2 c2 show ?thesis by blast
qed

text \<open>
  Claim C2, that the stock of every product stays non-negative under all four operations,
  does not hold of the code. Two lines for the same product are each checked against the
  stock as read and both charged: with a stock of 2, two lines of 2 are accepted and leave
  \<open>-2\<close>. And \<^verbatim>\<open>PUT /producto\<close> stores the \<^verbatim>\<open>parseInt\<close> of whatever stock it is given,
  \<open>-5\<close> included, where \<^verbatim>\<open>POST /producto\<close> refuses a negative stock. The store
  \<open>tienda\<close> has no negative stock before either request and has one after each.
  Creating and deactivating a product do keep stocks non-negative
  (\<open>post_producto_stock_no_negativo\<close>, \<open>delete_producto_stock_no_negativo\<close>).
\<close>

theorem stock_negativo:
  "list_all stock_no_negativo (DB_PRODUCTOS tienda) \<and>
   fst (post_venta tienda (Arr [pedir 1 2, pedir 1 2]) Undefined ''v1'' ''t1'') \<noteq>
     Inl ConflictError \<and>
   map stock (DB_PRODUCTOS (snd (post_venta tienda (Arr [pedir 1 2, pedir 1 2])
      Undefined ''v1'' ''t1''))) = [Some (- 2), Some 7] \<and>
   length (DB_VENTAS (snd (post_venta tienda (Arr [pedir 1 2, pedir 1 2])
      Undefined ''v1'' ''t1''))) = 1 \<and>
   \<not> list_all stock_no_negativo (DB_PRODUCTOS (snd (post_venta tienda
      (Arr [pedir 1 2, pedir 1 2]) Undefined ''v1'' ''t1''))) \<and>
   map stock (DB_PRODUCTOS (snd (put_producto tienda (Num (Fin 1)) Undefined Undefined
      (Num (Fin (- 5))) Undefined))) = [Some (- 5), Some 7] \<and>
   \<not> list_all stock_no_negativo (DB_PRODUCTOS (snd (put_producto tienda (Num (Fin 1))
      Undefined Undefined (Num (Fin (- 5))) Undefined)))"
proof -
  have "list_all stock_no_negativo (DB_PRODUCTOS tienda)" by code_simp
  moreover have
    "fst (post_venta tienda (Arr [pedir 1 2, pedir 1 2]) Undefined ''v1'' ''t1'') \<noteq>
     Inl ConflictError" by code_simp
  moreover have "map stock (DB_PRODUCTOS (snd (post_venta tienda (Arr [pedir 1 2, pedir 1 2])
      Undefined ''v1'' ''t1''))) = [Some (- 2), Some 7]" by code_simp
  moreover have "length (DB_VENTAS (snd (post_venta tienda (Arr [pedir 1 2, pedir 1 2])
      Undefined ''v1'' ''t1''))) = 1" by code_simp
  moreover have "\<not> list_all stock_no_negativo (DB_PRODUCTOS (snd (post_venta tienda
      (Arr [pedir 1 2, pedir 1 2]) Undefined ''v1'' ''t1'')))" by code_simp
  moreover have "map stock (DB_PRODUCTOS (snd (put_producto tienda (Num (Fin 1)) Undefined
      Undefined (Num (Fin (- 5))) Undefined))) = [Some (- 5), Some 7]" by code_simp
  moreover have "\<not> list_all stock_no_negativo (DB_PRODUCTOS (snd (put_producto tienda
      (Num (Fin 1)) Undefined Undefined (Num (Fin (- 5))) Undefined)))" by code_simp
  ultimately show ?thesis by blast
qed








section \<open>Products\<close>







section \<open>Deactivating a product\<close>

text \<open>
  Claim C9. \<^verbatim>\<open>DELETE /producto\<close> is idempotent: when a call succeeds, a second call
  with the same id succeeds too, and leaves the products and the sales exactly as the
  first call left them. The first call succeeds for the id of every product of the
  collection, an id being a number other than 0.
\<close>

theorem delete_producto_idempotent:
  "(\<forall>st1. delete_producto st v = (Inr (), st1) \<longrightarrow>
      (\<exists>st2. delete_producto st1 v = (Inr (), st2) \<and>
             DB_PRODUCTOS st2 = DB_PRODUCTOS st1 \<and> DB_VENTAS st2 = DB_VENTAS st1)) \<and>
   (\<forall>r. r \<noteq> 0 \<longrightarrow> r \<in> id_producto ` set (DB_PRODUCTOS st) \<longrightarrow>
      (\<exists>st1. delete_producto st (Num (Fin r)) = (Inr (), st1)))"
proof (intro conjI allI impI)
  fix st1
  assume ok: "delete_producto st v = (Inr (), st1)"
  from delete_producto_Inr[OF ok] obtain idx where t: "truthy v" and
    lt: "idx < length (DB_PRODUCTOS st)" and
    idx: "findIndex (\<lambda>p. strict_eq (Num (Fin (id_producto p))) v) (DB_PRODUCTOS st) =
            Some idx" and
    st1: "st1 = st\<lparr>DB_PRODUCTOS :=
                      (DB_PRODUCTOS st)[idx := (DB_PRODUCTOS st ! idx)\<lparr>activo := False\<rparr>],
                    escrituras := escrituras st @ [Productos_json]\<rparr>" by blast
  let ?ys = "(DB_PRODUCTOS st)[idx := (DB_PRODUCTOS st ! idx)\<lparr>activo := False\<rparr>]"
  have db1: "DB_PRODUCTOS st1 = ?ys" by (simp add: st1)
  have "map id_producto ?ys = map id_producto (DB_PRODUCTOS st)"
    by (simp add: map_update_same)
  from findIndex_same_ids[OF this, of "\<lambda>i. strict_eq (Num (Fin i)) v"] idx
  have idx1: "findIndex (\<lambda>p. strict_eq (Num (Fin (id_producto p))) v) (DB_PRODUCTOS st1) =
      Some idx"
    by (simp add: db1)
  have "?ys[idx := (?ys ! idx)\<lparr>activo := False\<rparr>] = ?ys" using lt by simp
  then have again:
    "(DB_PRODUCTOS st1)[idx := (DB_PRODUCTOS st1 ! idx)\<lparr>activo := False\<rparr>] = DB_PRODUCTOS st1"
    by (simp add: db1)
  have "delete_producto st1 v =
      (Inr (), st1\<lparr>DB_PRODUCTOS := DB_PRODUCTOS st1,
                    escrituras := escrituras st1 @ [Productos_json]\<rparr>)"
    using t idx1 again by (simp add: delete_producto_eq)
  then show "\<exists>st2. delete_producto st1 v = (Inr (), st2) \<and>
             DB_PRODUCTOS st2 = DB_PRODUCTOS st1 \<and> DB_VENTAS st2 = DB_VENTAS st1"
    by simp
next
  fix r :: rat
  assume r: "r \<noteq> 0" and mem: "r \<in> id_producto ` set (DB_PRODUCTOS st)"
  from mem have "\<exists>x \<in> set (DB_PRODUCTOS st).
      strict_eq (Num (Fin (id_producto x))) (Num (Fin r))"
    by auto
  then have "findIndex (\<lambda>p. strict_eq (Num (Fin (id_producto p))) (Num (Fin r)))
      (DB_PRODUCTOS st) \<noteq> None"
    by (simp add: findIndex_None_iff)
  then obtain idx where
    "findIndex (\<lambda>p. strict_eq (Num (Fin (id_producto p))) (Num (Fin r))) (DB_PRODUCTOS st) =
       Some idx"
    by blast
  with r show "\<exists>st1. delete_producto st (Num (Fin r)) = (Inr (), st1)"
    by (simp add: delete_producto_eq)
qed

theorem delete_producto_idempotent_witness:
  "(1::rat) \<noteq> 0 \<and> 1 \<in> id_producto ` set (DB_PRODUCTOS tienda) \<and>
   (\<exists>st1. delete_producto tienda (Num (Fin 1)) = (Inr (), st1)) \<and>
   fst (delete_producto tienda (Num (Fin 1))) = Inr () \<and>
   (\<exists>st2. delete_producto (snd (delete_producto tienda (Num (Fin 1)))) (Num (Fin 1)) =
            (Inr (), st2) \<and>
          DB_PRODUCTOS st2 = DB_PRODUCTOS (snd (delete_producto tienda (Num (Fin 1)))) \<and>
          DB_VENTAS st2 = DB_VENTAS (snd (delete_producto tienda (Num (Fin 1))))) \<and>
   map activo (DB_PRODUCTOS (snd (delete_producto tienda (Num (Fin 1))))) = [False, True]"
proof -
  let ?S = "snd (delete_producto tienda (Num (Fin 1)))"
  have h1: "(1::rat) \<noteq> 0" by simp
  have h2: "1 \<in> id_producto ` set (DB_PRODUCTOS tienda)" by (simp add: tienda_def widget_def)
  have f: "fst (delete_producto tienda (Num (Fin 1))) = Inr ()" by code_simp
  then have e: "delete_producto tienda (Num (Fin 1)) = (Inr (), ?S)"
    by (metis prod.collapse)
  have m: "map activo (DB_PRODUCTOS ?S) = [False, True]" by code_simp
  note T = delete_producto_idempotent[of tienda "Num (Fin 1)"]
  from T h1 h2 have c1: "\<exists>st1. delete_producto tienda (Num (Fin 1)) = (Inr (), st1)" by blast
  from T e have c2: "\<exists>st2. delete_producto ?S (Num (Fin 1)) = (Inr (), st2) \<and>
          DB_PRODUCTOS st2 = DB_PRODUCTOS ?S \<and> DB_VENTAS st2 = DB_VENTAS ?S" by blast
  from h1 h2 c1 f c2 m show ?thesis by blast
qed




end
